theory Spec2Isabelle
  imports Main "HOL-Library.Sublist"
begin

section \<open>Recipe manager CLI: data model\<close>

text \<open>
  The repository is a command-line recipe manager. Its entry point \<^verbatim>\<open>index.js\<close> wires
  ten yargs commands to handlers; the handlers call the Recipe Model
  (\<^verbatim>\<open>src/recipe-basics.js\<close>), the prompts (\<^verbatim>\<open>src/cli/prompts.js\<close>), the display
  functions (\<^verbatim>\<open>src/cli/display.js\<close>) and the Store wrappers
  (\<^verbatim>\<open>src/cli/command-wrapper.js\<close>). Only \<^verbatim>\<open>index.js\<close> is available; what the other
  modules do is taken from the specification and marked as such.

  A JavaScript number that comes from the command line or from a prompt is a
  \<open>number\<close>: the integer \<open>Num i\<close>, the decimal fraction \<open>Frac m k\<close>, which stands for
  \<open>m / 10 ^ k\<close> (the argument \<^verbatim>\<open>2.5\<close> is \<open>Frac 25 1\<close>), or \<open>NaN\<close>, which yargs
  produces for text that is not numeric. The values are exact; the rounding of doubles
  is not modelled. What the specification declares an integer is an \<open>int\<close>.
\<close>

datatype number = Num int | Frac int nat | NaN

text \<open>\<^verbatim>\<open>x + d\<close>, \<^verbatim>\<open>x < n\<close> and \<^verbatim>\<open>x >= n\<close> for a number \<open>x\<close> and integers \<open>d\<close>, \<open>n\<close>.\<close>

fun add_int :: "number \<Rightarrow> int \<Rightarrow> number" where
  "add_int (Num i) d = Num (i + d)"
| "add_int (Frac m k) d = Frac (m + d * 10 ^ k) k"
| "add_int NaN d = NaN"

fun less_int :: "number \<Rightarrow> int \<Rightarrow> bool" where
  "less_int (Num i) n = (i < n)"
| "less_int (Frac m k) n = (m < n * 10 ^ k)"
| "less_int NaN n = False"

fun ge_int :: "number \<Rightarrow> int \<Rightarrow> bool" where
  "ge_int (Num i) n = (n \<le> i)"
| "ge_int (Frac m k) n = (n * 10 ^ k \<le> m)"
| "ge_int NaN n = False"

record ingredient =
  ing_name :: string
  ing_amount :: number
  ing_unit :: string

text \<open>
  A recipe as section 3 of the specification describes it. \<open>recipe_id\<close> is \<open>None\<close>
  while the Store has not assigned an id yet.
\<close>

record recipe =
  recipe_id :: "int option"
  name :: string
  cookingTime :: int
  servings :: int
  ingredients :: "ingredient list"
  steps :: "string list"

datatype error = ValidationError | NotFoundError | IndexError

text \<open>
  An operation that mutates the recipe object it is given and may raise: the result is
  the object after the call and the error raised, if any.
\<close>

type_synonym mutation = "recipe \<times> error option"

type_synonym store = "recipe list"

section \<open>Recipe Model\<close>

text \<open>
  Modelled from the spec: the four functions of \<^verbatim>\<open>src/recipe-basics.js\<close>, which is
  missing. Section 4.1: \<^verbatim>\<open>createRecipe\<close> constructs a recipe with empty ingredients
  and steps and fails with \<^verbatim>\<open>ValidationError\<close> if the name is empty, the cooking time
  is negative or the servings are not strictly positive.
\<close>

definition createRecipe :: "string \<Rightarrow> int \<Rightarrow> int \<Rightarrow> error + recipe" where
  "createRecipe nm ct sv =
     (if nm = [] \<or> ct < 0 \<or> sv \<le> 0 then Inl ValidationError
      else Inr \<lparr>recipe_id = None, name = nm, cookingTime = ct, servings = sv,
                ingredients = [], steps = []\<rparr>)"

text \<open>
  Modelled from the spec: \<^verbatim>\<open>addIngredient\<close> of the missing
  \<^verbatim>\<open>src/recipe-basics.js\<close>. It appends an entry to \<^verbatim>\<open>recipe.ingredients\<close> in place
  and fails with \<^verbatim>\<open>ValidationError\<close> on an empty name or a non-numeric amount.
\<close>

definition addIngredient :: "recipe \<Rightarrow> string \<Rightarrow> number \<Rightarrow> string \<Rightarrow> mutation" where
  "addIngredient r nm a un =
     (if nm = [] \<or> a = NaN then (r, Some ValidationError)
      else (r\<lparr>ingredients := ingredients r @
                 [\<lparr>ing_name = nm, ing_amount = a, ing_unit = un\<rparr>]\<rparr>, None))"

text \<open>
  Modelled from the spec: \<^verbatim>\<open>addStep\<close> of the missing \<^verbatim>\<open>src/recipe-basics.js\<close>. It
  appends the instruction to \<^verbatim>\<open>recipe.steps\<close> in place and fails with
  \<^verbatim>\<open>ValidationError\<close> on an empty instruction.
\<close>

definition addStep :: "recipe \<Rightarrow> string \<Rightarrow> mutation" where
  "addStep r instruction =
     (if instruction = [] then (r, Some ValidationError)
      else (r\<lparr>steps := steps r @ [instruction]\<rparr>, None))"

text \<open>
  Modelled from the spec: \<^verbatim>\<open>removeStep\<close> of the missing \<^verbatim>\<open>src/recipe-basics.js\<close>. It
  removes the element at the zero-based index from \<^verbatim>\<open>recipe.steps\<close>, shifting the later
  elements down, and fails with \<^verbatim>\<open>IndexError\<close> if the index is out of
  \<^verbatim>\<open>[0, length)\<close>.
\<close>

definition removeStep :: "recipe \<Rightarrow> int \<Rightarrow> mutation" where
  "removeStep r i =
     (if 0 \<le> i \<and> i < int (length (steps r))
      then (r\<lparr>steps := take (nat i) (steps r) @ drop (Suc (nat i)) (steps r)\<rparr>, None)
      else (r, Some IndexError))"

text \<open>
  Modelled from the spec: \<^verbatim>\<open>removeStep\<close> of the missing \<^verbatim>\<open>src/recipe-basics.js\<close>
  when the handler hands it a JavaScript number. The range \<^verbatim>\<open>[0, length)\<close> of section
  4.1 is tested on the number; an index inside it that has a fraction stands for the
  position of its integer part; \<open>NaN\<close> lies in no range.
\<close>

fun removeStep_num :: "recipe \<Rightarrow> number \<Rightarrow> mutation" where
  "removeStep_num r (Num i) = removeStep r i"
| "removeStep_num r (Frac m k) = removeStep r (m div 10 ^ k)"
| "removeStep_num r NaN = (r, Some IndexError)"

section \<open>Recipe Store and Query Layer\<close>

text \<open>
  The code of the Store operations of section 4.2 (\<^verbatim>\<open>src/cli/command-wrapper.js\<close>
  and what it calls) is missing. The persisted collection is the list of recipes in
  Store order.
\<close>

text \<open>Modelled from the spec: \<^verbatim>\<open>list\<close> of the missing Store, all recipes.\<close>

definition list_recipes :: "store \<Rightarrow> recipe list" where
  "list_recipes s = s"

text \<open>
  Modelled from the spec: \<^verbatim>\<open>getById\<close> of the missing Store, the record with the id, or
  absent when there is none.
\<close>

definition getById :: "store \<Rightarrow> int \<Rightarrow> recipe option" where
  "getById s i = find (\<lambda>r. recipe_id r = Some i) s"

text \<open>
  Modelled from the spec: the ids of the records that the missing Store holds, in Store
  order.
\<close>

fun stored_ids :: "store \<Rightarrow> int list" where
  "stored_ids [] = []"
| "stored_ids (r # rs) =
     (case recipe_id r of None \<Rightarrow> stored_ids rs | Some i \<Rightarrow> i # stored_ids rs)"

text \<open>
  Modelled from the spec: the id scheme of \<^verbatim>\<open>create\<close>, "max existing id + 1, or 1
  if empty".
\<close>

definition next_id :: "store \<Rightarrow> int" where
  "next_id s =
     (case stored_ids s of [] \<Rightarrow> 1 | i # is \<Rightarrow> fold max is i + 1)"

text \<open>
  Modelled from the spec: \<^verbatim>\<open>create\<close> of the missing Store. It assigns the fresh id,
  appends the recipe to the collection and returns it with the id set.
\<close>

definition create :: "store \<Rightarrow> recipe \<Rightarrow> store \<times> recipe" where
  "create s r = (let r' = r\<lparr>recipe_id := Some (next_id s)\<rparr> in (s @ [r'], r'))"

text \<open>
  Modelled from the spec: whether the missing Store holds a record with the given id; a
  recipe that has no id yet matches none.
\<close>

definition has_id :: "store \<Rightarrow> int option \<Rightarrow> bool" where
  "has_id s i = (i \<noteq> None \<and> i \<in> set (map recipe_id s))"

text \<open>
  Modelled from the spec: \<^verbatim>\<open>update\<close> of the missing Store. It overwrites the stored
  record whose id is that of the given recipe and fails with \<^verbatim>\<open>NotFoundError\<close> if no
  record has that id.
\<close>

definition update :: "store \<Rightarrow> recipe \<Rightarrow> store \<times> error option" where
  "update s r =
     (if has_id s (recipe_id r)
      then (map (\<lambda>x. if recipe_id x = recipe_id r then r else x) s, None)
      else (s, Some NotFoundError))"

text \<open>
  Modelled from the spec: \<^verbatim>\<open>delete\<close> of the missing Store. It removes the matching
  record and returns whether one was removed.
\<close>

definition delete :: "store \<Rightarrow> int \<Rightarrow> store \<times> bool" where
  "delete s i = (filter (\<lambda>r. recipe_id r \<noteq> Some i) s, has_id s (Some i))"

text \<open>
  Modelled from the spec: \<^verbatim>\<open>quickRecipes\<close> of section 4.3, whose code is missing:
  all recipes with \<^verbatim>\<open>cookingTime <= maxTime\<close>, in Store order.
\<close>

fun quickRecipes :: "int \<Rightarrow> store \<Rightarrow> recipe list" where
  "quickRecipes maxTime [] = []"
| "quickRecipes maxTime (r # rs) =
     (if cookingTime r \<le> maxTime then r # quickRecipes maxTime rs
      else quickRecipes maxTime rs)"

text \<open>
  Modelled from the spec: the callback arguments of \<^verbatim>\<open>getQuickRecipesList\<close>, a
  wrapper of the missing \<^verbatim>\<open>src/cli/command-wrapper.js\<close>: the quick recipes of the
  stored collection and the threshold it was given. An integer cooking time is at most
  \<open>m / 10 ^ k\<close> exactly when it is at most the integer part of that. A comparison with
  \<open>NaN\<close> is false in JavaScript, so no recipe passes then.
\<close>

fun getQuickRecipesList :: "store \<Rightarrow> number \<Rightarrow> recipe list \<times> number" where
  "getQuickRecipesList s (Num m) = (quickRecipes m (list_recipes s), Num m)"
| "getQuickRecipesList s (Frac m k) = (quickRecipes (m div 10 ^ k) (list_recipes s), Frac m k)"
| "getQuickRecipesList s NaN = ([], NaN)"

section \<open>Text of numbers in template literals\<close>

definition dquote :: string where
  "dquote = [CHR 0x22]"

text \<open>The decimal text JavaScript gives an integer when it is put into a template.\<close>

definition digit :: "nat \<Rightarrow> char" where
  "digit d = ''0123456789'' ! d"

fun show_nat :: "nat \<Rightarrow> string" where
  "show_nat n = (if 10 \<le> n then show_nat (n div 10) @ [digit (n mod 10)] else [digit n])"

declare show_nat.simps [simp del]

definition show_int :: "int \<Rightarrow> string" where
  "show_int i = (if 0 \<le> i then show_nat (nat i) else CHR ''-'' # show_nat (nat (- i)))"

text \<open>
  The text of \<open>m / 10 ^ k\<close>: the sign, the integer part and, unless the fraction is
  zero, the point and the \<open>k\<close> digits of the fraction without the zeros at their end,
  as JavaScript writes a number that needs no exponent.
\<close>

definition show_frac :: "int \<Rightarrow> nat \<Rightarrow> string" where
  "show_frac m k =
     (let a = nat (abs m);
          ds = show_nat (a mod 10 ^ k);
          padded = replicate (k - length ds) (CHR ''0'') @ ds
      in (if m < 0 then ''-'' else []) @ show_nat (a div 10 ^ k) @
         (if a mod 10 ^ k = 0 then []
          else CHR ''.'' # rev (dropWhile (\<lambda>c. c = CHR ''0'') (rev padded))))"

fun show_number :: "number \<Rightarrow> string" where
  "show_number NaN = ''NaN''"
| "show_number (Num i) = show_int i"
| "show_number (Frac m k) = show_frac m k"

section \<open>The command handlers of index.js\<close>

text \<open>
  A handler's observable behaviour is the sequence of calls it makes to its
  collaborators: the display functions, \<^verbatim>\<open>console.log\<close> (with the chalk colour of the
  text), the prompts, the Store wrappers and \<^verbatim>\<open>execSync\<close>. The wrappers
  \<^verbatim>\<open>createNewRecipe\<close>, \<^verbatim>\<open>updateExistingRecipe\<close> and \<^verbatim>\<open>deleteRecipe\<close> are recorded
  with their arguments and taken to return normally.
\<close>

datatype colour = Plain | Cyan | Green

datatype action =
    DisplayRecipeList "recipe list"
  | DisplayRecipeDetails recipe
  | DisplayFormattedRecipe recipe
  | DisplaySuccess string
  | DisplayError string
  | DisplayWarning string
  | DisplayInfo string
  | ConsoleLog colour string
  | PromptForRecipeInfo
  | PromptForIngredient
  | PromptForStep
  | PromptForStepIndex int
  | PromptForConfirmation string
  | CreateNewRecipe recipe
  | UpdateExistingRecipe recipe string
  | DeleteRecipe number string
  | ExecSync string

text \<open>
  The result of a handler: the calls made, and the error that left the handler (or the
  continuation it passed to \<^verbatim>\<open>then\<close>) uncaught, if any.
\<close>

type_synonym handler_result = "action list \<times> error option"

text \<open>What the prompts resolve to.\<close>

record recipeInfo =
  info_name :: string
  info_cookingTime :: int
  info_servings :: int

record ingredientInfo =
  ingredient_name :: string
  ingredient_amount :: number
  ingredient_unit :: string

text \<open>\<^verbatim>\<open>list\<close>: the callback of \<^verbatim>\<open>getRecipes\<close>.\<close>

definition list_handler :: "recipe list \<Rightarrow> handler_result" where
  "list_handler recipes = ([DisplayRecipeList recipes], None)"

text \<open>
  \<^verbatim>\<open>view <id>\<close> and \<^verbatim>\<open>format <id>\<close>: the callback of \<^verbatim>\<open>getRecipeById\<close>, given
  what the lookup passed to it (\<open>None\<close> for a falsy value).
\<close>

definition view_handler :: "recipe option \<Rightarrow> handler_result" where
  "view_handler recipe =
     (case recipe of Some r \<Rightarrow> ([DisplayRecipeDetails r], None) | None \<Rightarrow> ([], None))"

definition format_handler :: "recipe option \<Rightarrow> handler_result" where
  "format_handler recipe =
     (case recipe of Some r \<Rightarrow> ([DisplayFormattedRecipe r], None) | None \<Rightarrow> ([], None))"

text \<open>
  \<^verbatim>\<open>create\<close>: the continuation of \<^verbatim>\<open>promptForRecipeInfo\<close> has no \<^verbatim>\<open>catch\<close>; an
  error raised by \<^verbatim>\<open>createRecipe\<close> leaves it. The Model function is a parameter.
\<close>

definition create_handler ::
  "(string \<Rightarrow> int \<Rightarrow> int \<Rightarrow> error + recipe) \<Rightarrow> recipeInfo \<Rightarrow> handler_result" where
  "create_handler createRecipe' recipeInfo =
     (case createRecipe' (info_name recipeInfo) (info_cookingTime recipeInfo)
             (info_servings recipeInfo) of
        Inl e \<Rightarrow> ([PromptForRecipeInfo], Some e)
      | Inr newRecipe \<Rightarrow>
          ([PromptForRecipeInfo, CreateNewRecipe newRecipe,
            DisplaySuccess (''Recipe '' @ dquote @ name newRecipe @ dquote @
                            '' created successfully!'')], None))"

text \<open>\<^verbatim>\<open>add-ingredient <id>\<close>.\<close>

definition add_ingredient_handler ::
  "(recipe \<Rightarrow> string \<Rightarrow> number \<Rightarrow> string \<Rightarrow> mutation) \<Rightarrow> recipe option \<Rightarrow>
   ingredientInfo \<Rightarrow> handler_result" where
  "add_ingredient_handler addIngredient' recipe ingredientInfo =
     (case recipe of
        None \<Rightarrow> ([], None)
      | Some r \<Rightarrow>
          (case addIngredient' r (ingredient_name ingredientInfo)
                  (ingredient_amount ingredientInfo) (ingredient_unit ingredientInfo) of
             (r', Some e) \<Rightarrow> ([PromptForIngredient], Some e)
           | (r', None) \<Rightarrow>
               ([PromptForIngredient,
                 UpdateExistingRecipe r'
                   (''Added '' @ ingredient_name ingredientInfo @ '' to '' @ dquote @
                    name r' @ dquote)], None)))"

text \<open>\<^verbatim>\<open>add-step <id>\<close>.\<close>

definition add_step_handler ::
  "(recipe \<Rightarrow> string \<Rightarrow> mutation) \<Rightarrow> recipe option \<Rightarrow> string \<Rightarrow> handler_result" where
  "add_step_handler addStep' recipe instruction =
     (case recipe of
        None \<Rightarrow> ([], None)
      | Some r \<Rightarrow>
          (case addStep' r instruction of
             (r', Some e) \<Rightarrow> ([PromptForStep], Some e)
           | (r', None) \<Rightarrow>
               ([PromptForStep,
                 UpdateExistingRecipe r'
                   (''Added step '' @ show_nat (length (steps r')) @ '' to '' @
                    dquote @ name r' @ dquote)], None)))"

text \<open>
  \<^verbatim>\<open>remove-step <id> [stepIndex]\<close>. \<^verbatim>\<open>if (argv.stepIndex)\<close> tests the argument for
  truthiness: \<^verbatim>\<open>undefined\<close> (the argument omitted), \<open>NaN\<close> and \<open>0\<close> are falsy, every
  other number is truthy.
\<close>

fun truthy :: "number option \<Rightarrow> bool" where
  "truthy None = False"
| "truthy (Some NaN) = False"
| "truthy (Some (Num n)) = (n \<noteq> 0)"
| "truthy (Some (Frac m k)) = (m \<noteq> 0)"

text \<open>
  \<^verbatim>\<open>let stepIndex = null; if (argv.stepIndex) { stepIndex = argv.stepIndex - 1; }\<close>
  The result is \<open>None\<close> for \<^verbatim>\<open>null\<close>.
\<close>

fun zero_based :: "number option \<Rightarrow> number option" where
  "zero_based None = None"
| "zero_based (Some x) = (if truthy (Some x) then Some (add_int x (- 1)) else None)"

text \<open>The lines that \<^verbatim>\<open>recipe.steps.forEach\<close> prints: \<^verbatim>\<open>`${index + 1}. ${step}`\<close>.\<close>

definition step_lines :: "string list \<Rightarrow> action list" where
  "step_lines ss =
     map (\<lambda>(index, step). ConsoleLog Plain (show_nat (index + 1) @ ''. '' @ step))
       (enumerate 0 ss)"

text \<open>
  The two places that call \<^verbatim>\<open>removeStep\<close> and then \<^verbatim>\<open>updateExistingRecipe\<close> with the
  message \<^verbatim>\<open>`Removed step ${index + 1} from "${recipe.name}"`\<close>; neither has a
  \<^verbatim>\<open>catch\<close>.
\<close>

definition remove_and_update ::
  "(recipe \<Rightarrow> number \<Rightarrow> mutation) \<Rightarrow> recipe \<Rightarrow> number \<Rightarrow> handler_result" where
  "remove_and_update removeStep' r index =
     (case removeStep' r index of
        (r', Some e) \<Rightarrow> ([], Some e)
      | (r', None) \<Rightarrow>
          ([UpdateExistingRecipe r'
              (''Removed step '' @ show_number (add_int index 1) @ '' from '' @ dquote @
               name r' @ dquote)], None))"

text \<open>
  The handler; \<open>answer\<close> is what \<^verbatim>\<open>promptForStepIndex\<close> resolves to. The range test
  \<^verbatim>\<open>stepIndex < 0 || stepIndex >= recipe.steps.length\<close> compares numbers, so a
  \<open>stepIndex\<close> with a fraction passes it when it lies between the bounds.
\<close>

definition remove_step_handler ::
  "(recipe \<Rightarrow> number \<Rightarrow> mutation) \<Rightarrow> recipe option \<Rightarrow> number option \<Rightarrow> number \<Rightarrow>
   handler_result" where
  "remove_step_handler removeStep' recipe argStepIndex answer =
     (case recipe of
        None \<Rightarrow> ([], None)
      | Some r \<Rightarrow>
          if length (steps r) = 0
          then ([DisplayWarning ''This recipe has no steps to remove''], None)
          else
            (case zero_based argStepIndex of
               None \<Rightarrow>
                 (let (acts, err) = remove_and_update removeStep' r answer
                  in (ConsoleLog Cyan ''Current steps:'' # step_lines (steps r) @
                      PromptForStepIndex (int (length (steps r)) - 1) # acts, err))
             | Some stepIndex \<Rightarrow>
                 if less_int stepIndex 0 \<or> ge_int stepIndex (int (length (steps r)))
                 then ([DisplayWarning
                          (''Invalid step index. Please use a number between 1 and '' @
                           show_nat (length (steps r)))], None)
                 else remove_and_update removeStep' r stepIndex))"

text \<open>\<^verbatim>\<open>delete <id>\<close>; \<open>confirmed\<close> is what \<^verbatim>\<open>promptForConfirmation\<close> resolves to.\<close>

definition delete_handler :: "recipe option \<Rightarrow> number \<Rightarrow> bool \<Rightarrow> handler_result" where
  "delete_handler recipe argId confirmed =
     (case recipe of
        None \<Rightarrow> ([], None)
      | Some r \<Rightarrow>
          (PromptForConfirmation
             (''Are you sure you want to delete '' @ dquote @ name r @ dquote @ ''?'') #
           (if \<not> confirmed then [DisplayInfo ''Delete cancelled'']
            else [DeleteRecipe argId (name r)]), None))"

text \<open>
  \<^verbatim>\<open>quick [time]\<close>: the positional has \<^verbatim>\<open>default: 30\<close>, which yargs uses when the
  argument is not given; then the callback of \<^verbatim>\<open>getQuickRecipesList\<close>.
\<close>

definition quick_time :: "number option \<Rightarrow> number" where
  "quick_time argTime = (case argTime of None \<Rightarrow> Num 30 | Some t \<Rightarrow> t)"

definition quick_handler :: "recipe list \<Rightarrow> number \<Rightarrow> handler_result" where
  "quick_handler qs maxTime =
     (if length qs > 0
      then (ConsoleLog Green
              (''Found '' @ show_nat (length qs) @ '' quick recipes under '' @
               show_number maxTime @ '' minutes:'') #
            map (\<lambda>r. ConsoleLog Plain
                   (name r @ '' - '' @ show_int (cookingTime r) @ '' minutes'')) qs,
            None)
      else ([DisplayWarning
               (''No quick recipes found under '' @ show_number maxTime @
                '' minutes'')], None))"

text \<open>
  \<^verbatim>\<open>reset-data\<close>; \<open>thrown\<close> is the message of the error that \<^verbatim>\<open>execSync\<close> throws, or
  \<open>None\<close> when it returns. The \<^verbatim>\<open>try\<close>/\<^verbatim>\<open>catch\<close> is the only one in the file.
\<close>

definition reset_data_handler :: "string option \<Rightarrow> bool \<Rightarrow> handler_result" where
  "reset_data_handler thrown confirmed =
     (PromptForConfirmation
        ''Are you sure you want to reset all recipe data to defaults? This cannot be undone.'' #
      (if \<not> confirmed then [DisplayInfo ''Reset cancelled'']
       else ExecSync ''npm run reset-data'' #
            (case thrown of
               None \<Rightarrow> [DisplaySuccess ''Recipe data has been reset to defaults'']
             | Some msg \<Rightarrow> [DisplayError (''Failed to reset data: '' @ msg)])), None)"

section \<open>Commands on the stored collection\<close>

text \<open>
  Modelled from the spec: \<^verbatim>\<open>getRecipeById\<close>, a wrapper of the missing
  \<^verbatim>\<open>src/cli/command-wrapper.js\<close>. It passes the Store's \<^verbatim>\<open>getById\<close> result to the
  callback; section 7 says that not-found on a lookup is reported as a warning. The
  text of that warning is not known and is a parameter. Ids are integers: \<open>NaN\<close> and a
  number with a fraction that is not zero equal no id.
\<close>

fun getRecipeById ::
  "(number \<Rightarrow> string) \<Rightarrow> store \<Rightarrow> number \<Rightarrow> action list \<times> recipe option" where
  "getRecipeById notFound s (Num i) =
     (case getById s i of
        None \<Rightarrow> ([DisplayWarning (notFound (Num i))], None)
      | Some r \<Rightarrow> ([], Some r))"
| "getRecipeById notFound s (Frac m k) =
     (if m mod 10 ^ k = 0
      then (case getById s (m div 10 ^ k) of
              None \<Rightarrow> ([DisplayWarning (notFound (Frac m k))], None)
            | Some r \<Rightarrow> ([], Some r))
      else ([DisplayWarning (notFound (Frac m k))], None))"
| "getRecipeById notFound s NaN = ([DisplayWarning (notFound NaN)], None)"

text \<open>
  The six commands that look a recipe up by id, each with what the user answers to its
  prompt, should the prompt be reached.
\<close>

datatype lookup_command =
    View
  | Format
  | AddIngredient ingredientInfo
  | AddStep string
  | RemoveStep "number option" number
  | Delete bool

fun lookup_handler :: "lookup_command \<Rightarrow> number \<Rightarrow> recipe option \<Rightarrow> handler_result" where
  "lookup_handler View argId r = view_handler r"
| "lookup_handler Format argId r = format_handler r"
| "lookup_handler (AddIngredient info) argId r = add_ingredient_handler addIngredient r info"
| "lookup_handler (AddStep instruction) argId r = add_step_handler addStep r instruction"
| "lookup_handler (RemoveStep argStepIndex answer) argId r =
     remove_step_handler removeStep_num r argStepIndex answer"
| "lookup_handler (Delete confirmed) argId r = delete_handler r argId confirmed"

definition run_lookup_command ::
  "(number \<Rightarrow> string) \<Rightarrow> lookup_command \<Rightarrow> number \<Rightarrow> store \<Rightarrow> handler_result" where
  "run_lookup_command notFound cmd argId s =
     (let (warned, r) = getRecipeById notFound s argId;
          (acts, err) = lookup_handler cmd argId r
      in (warned @ acts, err))"

text \<open>
  Modelled from the spec: what a recorded call does to the stored collection. The
  wrappers \<^verbatim>\<open>createNewRecipe\<close>, \<^verbatim>\<open>updateExistingRecipe\<close> and \<^verbatim>\<open>deleteRecipe\<close> of the
  missing \<^verbatim>\<open>src/cli/command-wrapper.js\<close> apply the Store's \<^verbatim>\<open>create\<close>, \<^verbatim>\<open>update\<close>
  and \<^verbatim>\<open>delete\<close>; displaying and prompting leave the collection alone.
\<close>

fun perform :: "action \<Rightarrow> store \<Rightarrow> store" where
  "perform (CreateNewRecipe r) s = fst (create s r)"
| "perform (UpdateExistingRecipe r msg) s = fst (update s r)"
| "perform (DeleteRecipe (Num i) nm) s = fst (delete s i)"
| "perform (DeleteRecipe (Frac m k) nm) s =
     (if m mod 10 ^ k = 0 then fst (delete s (m div 10 ^ k)) else s)"
| "perform _ s = s"

text \<open>The stored collection after a handler's calls, in order.\<close>

definition run_actions :: "action list \<Rightarrow> store \<Rightarrow> store" where
  "run_actions acts s = fold perform acts s"

text \<open>The calls that prompt the user, those that go to the Store, and \<^verbatim>\<open>execSync\<close>.\<close>

fun is_prompt :: "action \<Rightarrow> bool" where
  "is_prompt PromptForRecipeInfo = True"
| "is_prompt PromptForIngredient = True"
| "is_prompt PromptForStep = True"
| "is_prompt (PromptForStepIndex m) = True"
| "is_prompt (PromptForConfirmation q) = True"
| "is_prompt _ = False"

fun is_store_call :: "action \<Rightarrow> bool" where
  "is_store_call (CreateNewRecipe r) = True"
| "is_store_call (UpdateExistingRecipe r msg) = True"
| "is_store_call (DeleteRecipe i nm) = True"
| "is_store_call _ = False"

fun is_exec :: "action \<Rightarrow> bool" where
  "is_exec (ExecSync c) = True"
| "is_exec _ = False"

text \<open>
  Modelled from the spec: the external reset procedure that \<^verbatim>\<open>npm run reset-data\<close>
  starts; its script is missing. Section 7 takes it as all-or-nothing: it either fails
  with a message, leaving the persisted data as it was, or succeeds with new data.
\<close>

type_synonym reset_procedure = "store \<Rightarrow> string + store"

text \<open>
  Modelled from the spec: what \<^verbatim>\<open>execSync\<close> throws when the missing reset procedure
  runs on the given data, and the data after the call; then the handler of
  \<^verbatim>\<open>reset-data\<close> run on the stored collection.
\<close>

definition exec_thrown :: "reset_procedure \<Rightarrow> store \<Rightarrow> string option" where
  "exec_thrown reset s = (case reset s of Inl msg \<Rightarrow> Some msg | Inr s' \<Rightarrow> None)"

fun perform_ext :: "reset_procedure \<Rightarrow> action \<Rightarrow> store \<Rightarrow> store" where
  "perform_ext reset (ExecSync c) s = (case reset s of Inl msg \<Rightarrow> s | Inr s' \<Rightarrow> s')"
| "perform_ext reset a s = perform a s"

definition reset_data_command ::
  "reset_procedure \<Rightarrow> bool \<Rightarrow> store \<Rightarrow> handler_result \<times> store" where
  "reset_data_command reset confirmed s =
     (let (acts, err) = reset_data_handler (exec_thrown reset s) confirmed
      in ((acts, err), fold (perform_ext reset) acts s))"

text \<open>\<^verbatim>\<open>quick [time]\<close> on the stored collection.\<close>

definition quick_command :: "number option \<Rightarrow> store \<Rightarrow> handler_result" where
  "quick_command argTime s =
     (let (qs, maxTime) = getQuickRecipesList s (quick_time argTime)
      in quick_handler qs maxTime)"

section \<open>Example data\<close>

text \<open>The recipes of the scenarios in section 8 of the specification.\<close>

definition tea :: recipe where
  "tea = \<lparr>recipe_id = Some 1, name = ''Tea'', cookingTime = 10, servings = 1,
          ingredients = [], steps = [''Boil water'', ''Steep'']\<rparr>"

definition stew :: recipe where
  "stew = \<lparr>recipe_id = Some 2, name = ''Stew'', cookingTime = 45, servings = 4,
           ingredients = [], steps = []\<rparr>"

section \<open>Auxiliary facts\<close>

lemma fold_max_ge: "x \<in> set (i # is) \<Longrightarrow> x \<le> fold max is (i::int)"
proof -
  assume "x \<in> set (i # is)"
  then have "x \<le> Max (set (i # is))" by (intro Max_ge) auto
  then show ?thesis by (simp only: Max.set_eq_fold)
qed

lemma stored_ids_mem: "r \<in> set s \<Longrightarrow> recipe_id r = Some i \<Longrightarrow> i \<in> set (stored_ids s)"
  by (induction s) (auto split: option.splits)

lemma stored_id_less_next: "r \<in> set s \<Longrightarrow> recipe_id r = Some i \<Longrightarrow> i < next_id s"
  using fold_max_ge stored_ids_mem
  by (fastforce simp: next_id_def split: list.splits)

lemma next_id_fresh: "Some (next_id s) \<notin> recipe_id ` set s"
proof
  assume "Some (next_id s) \<in> recipe_id ` set s"
  then obtain r where "r \<in> set s" "recipe_id r = Some (next_id s)" by force
  then have "next_id s < next_id s" by (rule stored_id_less_next)
  then show False by simp
qed

lemma getById_fresh: "Some i \<notin> recipe_id ` set s \<Longrightarrow> getById s i = None"
  by (induction s) (auto simp: getById_def)

lemma getById_append:
  "getById (s @ t) i = (case getById s i of None \<Rightarrow> getById t i | Some r \<Rightarrow> Some r)"
  by (induction s) (auto simp: getById_def)

lemma stored_ids_append: "stored_ids (s @ t) = stored_ids s @ stored_ids t"
  by (induction s) (auto split: option.splits)

lemma stored_ids_set: "set (stored_ids s) = {i. Some i \<in> recipe_id ` set s}"
  by (induction s) (auto split: option.splits)

lemma stored_ids_update:
  "stored_ids (map (\<lambda>x. if recipe_id x = recipe_id r then r else x) s) = stored_ids s"
  by (induction s) (auto split: option.splits)

lemma stored_ids_delete:
  "stored_ids (filter (\<lambda>r. recipe_id r \<noteq> Some i) s) = filter (\<lambda>j. j \<noteq> i) (stored_ids s)"
  by (induction s) (auto split: option.splits)

lemma quickRecipes_filter: "quickRecipes m s = filter (\<lambda>r. cookingTime r \<le> m) s"
  by (induction s) auto

section \<open>Query Layer\<close>

text \<open>
  Claim C1. For every threshold and every stored collection, \<^verbatim>\<open>quickRecipes(maxTime)\<close>
  returns exactly the recipes with \<^verbatim>\<open>cookingTime <= maxTime\<close>, in Store order: it is
  the collection filtered by that test, hence a subsequence of the collection holding
  the recipes that pass and no other. When the caller gives no time, the quick command
  uses the threshold 30.
\<close>

theorem quick_recipes_exact:
  "quickRecipes maxTime s = filter (\<lambda>r. cookingTime r \<le> maxTime) s
   \<and> subseq (quickRecipes maxTime s) s
   \<and> set (quickRecipes maxTime s) = {r \<in> set s. cookingTime r \<le> maxTime}
   \<and> quick_time None = Num 30
   \<and> quick_command None s = quick_command (Some (Num 30)) s
   \<and> quick_command None s = quick_handler (quickRecipes 30 s) (Num 30)"
  by (simp add: quickRecipes_filter quick_time_def quick_command_def list_recipes_def)

theorem quick_recipes_exact_witness:
  "quickRecipes 30 [tea, stew] = [tea] \<and> quickRecipes 0 [tea, stew] = []
   \<and> subseq (quickRecipes 30 [tea, stew]) [tea, stew]"
  using quick_recipes_exact [of 30 "[tea, stew]"] quick_recipes_exact [of 0 "[tea, stew]"]
  by (simp add: tea_def stew_def)

section \<open>Recipe Model\<close>

text \<open>
  Claim C3. For every recipe and every step instruction that \<^verbatim>\<open>addStep\<close> accepts (a
  non-empty one), \<^verbatim>\<open>addStep\<close> appends the instruction, and \<^verbatim>\<open>removeStep\<close> at the
  index of the appended element, the last one, gives back the original recipe with its
  original steps. An empty instruction is refused with \<^verbatim>\<open>ValidationError\<close> and
  nothing is added.
\<close>

theorem addStep_removeStep_roundtrip:
  "(instruction \<noteq> [] \<longrightarrow>
      (\<exists>r'. addStep r instruction = (r', None)
           \<and> steps r' = steps r @ [instruction]
           \<and> removeStep r' (int (length (steps r')) - 1) = (r, None)))
   \<and> (instruction = [] \<longrightarrow> addStep r instruction = (r, Some ValidationError))"
  by (simp add: addStep_def removeStep_def)

theorem addStep_removeStep_roundtrip_witness:
  "''Pour'' \<noteq> [] \<and> snd (addStep tea ''Pour'') = None
   \<and> steps (fst (addStep tea ''Pour'')) = [''Boil water'', ''Steep'', ''Pour'']
   \<and> removeStep (fst (addStep tea ''Pour'')) 2 = (tea, None)"
  using addStep_removeStep_roundtrip [of "''Pour''" tea]
  by (auto simp: tea_def)

section \<open>Recipe Store\<close>

text \<open>
  Claim C4. For every stored collection, \<^verbatim>\<open>create\<close> gives the new recipe an id that no
  existing record has, and right after \<^verbatim>\<open>create\<close> the lookup \<^verbatim>\<open>getById\<close> of the new id
  returns the created record. If the ids of the collection are pairwise distinct, they
  still are after \<^verbatim>\<open>create\<close>, after \<^verbatim>\<open>update\<close> and after \<^verbatim>\<open>delete\<close>.
\<close>

theorem create_fresh_id:
  "(let (s', r') = create s r
    in recipe_id r' = Some (next_id s)
       \<and> recipe_id r' \<notin> recipe_id ` set s
       \<and> getById s' (next_id s) = Some r'
       \<and> (distinct (stored_ids s) \<longrightarrow> distinct (stored_ids s')))
   \<and> (distinct (stored_ids s) \<longrightarrow> distinct (stored_ids (fst (update s u))))
   \<and> (distinct (stored_ids s) \<longrightarrow> distinct (stored_ids (fst (delete s i))))"
proof -
  have fresh: "Some (next_id s) \<notin> recipe_id ` set s" by (rule next_id_fresh)
  have "getById (s @ [r\<lparr>recipe_id := Some (next_id s)\<rparr>]) (next_id s)
        = Some (r\<lparr>recipe_id := Some (next_id s)\<rparr>)"
    using getById_fresh [OF fresh] by (simp add: getById_append) (simp add: getById_def)
  moreover have "next_id s \<notin> set (stored_ids s)"
    using fresh by (simp add: stored_ids_set)
  moreover have "distinct (stored_ids s) \<longrightarrow> distinct (stored_ids (fst (update s u)))"
    by (simp add: update_def stored_ids_update)
  moreover have "distinct (stored_ids s) \<longrightarrow> distinct (stored_ids (fst (delete s i)))"
    by (simp add: delete_def stored_ids_delete)
  ultimately show ?thesis
    using fresh by (simp add: create_def Let_def stored_ids_append)
qed

theorem create_fresh_id_witness:
  "distinct (stored_ids [tea, stew])
   \<and> recipe_id (snd (create [tea, stew] tea)) = Some 3
   \<and> getById (fst (create [tea, stew] tea)) 3 = Some (tea\<lparr>recipe_id := Some 3\<rparr>)
   \<and> distinct (stored_ids (fst (create [tea, stew] tea)))
   \<and> distinct (stored_ids (fst (update [tea, stew] tea)))
   \<and> distinct (stored_ids (fst (delete [tea, stew] 1)))"
  using create_fresh_id [of "[tea, stew]" tea tea 1]
  by (simp add: tea_def stew_def create_def next_id_def getById_def update_def delete_def
      has_id_def Let_def)

section \<open>The remove-step command\<close>

lemma step_lines_no_warning: "DisplayWarning m \<notin> set (step_lines ss)"
  by (auto simp: step_lines_def)

lemma remove_and_update_no_warning: "DisplayWarning m \<notin> set (fst (remove_and_update rm r k))"
  by (auto simp: remove_and_update_def split: prod.splits option.splits)

lemma prompt_flow:
  "steps r \<noteq> [] \<Longrightarrow> zero_based arg = None \<Longrightarrow>
     remove_step_handler rm (Some r) arg answer
       = (ConsoleLog Cyan ''Current steps:'' # step_lines (steps r) @
          PromptForStepIndex (int (length (steps r)) - 1) #
          fst (remove_and_update rm r answer), snd (remove_and_update rm r answer))"
  by (simp add: remove_step_handler_def split: prod.splits)

lemma less_int_sub_one: "less_int (add_int x (- 1)) 0 = less_int x 1"
  by (cases x) simp_all

lemma ge_int_sub_one: "ge_int (add_int x (- 1)) n = ge_int x (n + 1)"
  by (cases x) (simp_all add: algebra_simps)

lemma explicit_flow:
  "steps r \<noteq> [] \<Longrightarrow> truthy (Some x) \<Longrightarrow>
     remove_step_handler rm (Some r) (Some x) answer
       = (if less_int x 1 \<or> ge_int x (int (length (steps r)) + 1)
          then ([DisplayWarning
                   (''Invalid step index. Please use a number between 1 and '' @
                    show_nat (length (steps r)))], None)
          else remove_and_update rm r (add_int x (- 1)))"
  by (simp add: remove_step_handler_def less_int_sub_one ge_int_sub_one)

text \<open>
  Claim C10. For every \<^verbatim>\<open>remove-step\<close> invocation on an existing recipe whose steps
  are empty, the handler displays the warning "This recipe has no steps to remove" and
  returns at once, whatever \<^verbatim>\<open>stepIndex\<close> argument was given or omitted: no prompt is
  shown, \<^verbatim>\<open>removeStep\<close> and \<^verbatim>\<open>updateExistingRecipe\<close> are not called, and the stored
  collection stays as it was.
\<close>

theorem remove_step_no_steps:
  "steps r = [] \<Longrightarrow>
     remove_step_handler rm (Some r) argStepIndex answer
       = ([DisplayWarning ''This recipe has no steps to remove''], None)
     \<and> (getById s i = Some r \<longrightarrow>
          run_lookup_command notFound (RemoveStep argStepIndex answer) (Num i) s
            = ([DisplayWarning ''This recipe has no steps to remove''], None))
     \<and> run_actions [DisplayWarning ''This recipe has no steps to remove''] s = s"
  by (simp add: remove_step_handler_def run_lookup_command_def run_actions_def)

theorem remove_step_no_steps_witness:
  "steps stew = [] \<and> getById [tea, stew] 2 = Some stew
   \<and> remove_step_handler removeStep_num (Some stew) (Some (Num 1)) (Num 0)
       = ([DisplayWarning ''This recipe has no steps to remove''], None)
   \<and> remove_step_handler removeStep_num (Some stew) (Some (Frac 25 1)) (Num 0)
       = ([DisplayWarning ''This recipe has no steps to remove''], None)
   \<and> run_lookup_command (\<lambda>n. ''Recipe not found'') (RemoveStep None (Num 0)) (Num 2)
        [tea, stew]
       = ([DisplayWarning ''This recipe has no steps to remove''], None)"
  using remove_step_no_steps [of stew removeStep_num "Some (Num 1)" "Num 0" "[tea, stew]" 2]
    remove_step_no_steps [of stew removeStep_num "Some (Frac 25 1)" "Num 0" "[tea, stew]" 2]
    remove_step_no_steps [of stew removeStep_num None "Num 0" "[tea, stew]" 2
      "\<lambda>n. ''Recipe not found''"]
  by (simp add: stew_def tea_def getById_def)

text \<open>
  Claim C9. A \<^verbatim>\<open>stepIndex\<close> given as 0 is falsy, so the handler behaves exactly as if
  the argument had been omitted. On a recipe that has steps it does not display the
  invalid-index warning (nor any other): it prints "Current steps:", lists the steps
  and prompts for an index.
\<close>

theorem remove_step_zero_as_omitted:
  "remove_step_handler rm ro (Some (Num 0)) answer = remove_step_handler rm ro None answer
   \<and> (steps r \<noteq> [] \<longrightarrow>
        fst (remove_step_handler rm (Some r) (Some (Num 0)) answer)
          = ConsoleLog Cyan ''Current steps:'' # step_lines (steps r) @
            PromptForStepIndex (int (length (steps r)) - 1) #
            fst (remove_and_update rm r answer)
        \<and> (\<forall>m. DisplayWarning m \<notin> set (fst (remove_step_handler rm (Some r) (Some (Num 0)) answer))))"
proof -
  have falsy: "zero_based (Some (Num 0)) = zero_based None" by simp
  have same: "remove_step_handler rm ro (Some (Num 0)) answer
              = remove_step_handler rm ro None answer"
    unfolding remove_step_handler_def falsy by (rule refl)
  have flow: "fst (remove_step_handler rm (Some r) (Some (Num 0)) answer)
          = ConsoleLog Cyan ''Current steps:'' # step_lines (steps r) @
            PromptForStepIndex (int (length (steps r)) - 1) #
            fst (remove_and_update rm r answer)" if "steps r \<noteq> []"
    using that by (simp add: prompt_flow)
  have quiet: "DisplayWarning m \<notin> set (fst (remove_step_handler rm (Some r) (Some (Num 0)) answer))"
    if "steps r \<noteq> []" for m
    using that step_lines_no_warning [of m "steps r"]
      remove_and_update_no_warning [of m rm r answer]
    by (simp add: prompt_flow)
  from same flow quiet show ?thesis by blast
qed

theorem remove_step_zero_as_omitted_witness:
  "steps tea \<noteq> []
   \<and> remove_step_handler removeStep_num (Some tea) (Some (Num 0)) (Num 1)
       = ([ConsoleLog Cyan ''Current steps:'', ConsoleLog Plain ''1. Boil water'',
           ConsoleLog Plain ''2. Steep'', PromptForStepIndex 1,
           UpdateExistingRecipe (tea\<lparr>steps := [''Boil water'']\<rparr>)
             (''Removed step 2 from '' @ dquote @ ''Tea'' @ dquote)], None)"
  using remove_step_zero_as_omitted [of removeStep_num "Some tea" "Num 1" tea]
  by (simp add: tea_def remove_step_handler_def remove_and_update_def removeStep_def
      step_lines_def show_int_def show_nat.simps digit_def enumerate_eq_zip upt_rec)

text \<open>
  Claim C2, as amended. The Model's \<^verbatim>\<open>removeStep\<close> fails with \<^verbatim>\<open>IndexError\<close> exactly
  for the indices outside \<^verbatim>\<open>[0, steps.length)\<close> and then leaves the recipe as it was.
  On a recipe that has steps, the \<^verbatim>\<open>remove-step\<close> handler answers with the
  invalid-index warning, calling neither \<^verbatim>\<open>removeStep\<close> nor
  \<^verbatim>\<open>updateExistingRecipe\<close>, every given \<^verbatim>\<open>stepIndex\<close> that is a number other than 0
  and is below 1 or at least \<^verbatim>\<open>stepCount + 1\<close>; among the integers these are the ones
  other than 0 outside \<^verbatim>\<open>[1, stepCount]\<close>. On a recipe without steps it displays the
  no-steps warning instead, again without mutating or persisting.
\<close>

theorem remove_step_index_rejected:
  "(snd (removeStep r i) = Some IndexError) = (\<not> (0 \<le> i \<and> i < int (length (steps r))))
   \<and> (\<not> (0 \<le> i \<and> i < int (length (steps r))) \<longrightarrow> removeStep r i = (r, Some IndexError))
   \<and> (steps r \<noteq> [] \<and> truthy (Some x)
        \<and> (less_int x 1 \<or> ge_int x (int (length (steps r)) + 1)) \<longrightarrow>
        remove_step_handler rm (Some r) (Some x) answer
          = ([DisplayWarning (''Invalid step index. Please use a number between 1 and '' @
                              show_nat (length (steps r)))], None))
   \<and> (steps r \<noteq> [] \<and> n \<noteq> 0 \<and> (n < 1 \<or> int (length (steps r)) < n) \<longrightarrow>
        remove_step_handler rm (Some r) (Some (Num n)) answer
          = ([DisplayWarning (''Invalid step index. Please use a number between 1 and '' @
                              show_nat (length (steps r)))], None))
   \<and> (steps r = [] \<longrightarrow>
        remove_step_handler rm (Some r) arg answer
          = ([DisplayWarning ''This recipe has no steps to remove''], None))"
proof -
  have model: "(snd (removeStep r i) = Some IndexError)
               = (\<not> (0 \<le> i \<and> i < int (length (steps r))))"
    by (simp add: removeStep_def)
  have unchanged: "\<not> (0 \<le> i \<and> i < int (length (steps r))) \<longrightarrow>
                   removeStep r i = (r, Some IndexError)"
    by (simp add: removeStep_def)
  have numbers: "remove_step_handler rm (Some r) (Some x) answer
          = ([DisplayWarning (''Invalid step index. Please use a number between 1 and '' @
                              show_nat (length (steps r)))], None)"
    if "steps r \<noteq> []" "truthy (Some x)"
       "less_int x 1 \<or> ge_int x (int (length (steps r)) + 1)"
    using that by (simp add: explicit_flow)
  have integers: "remove_step_handler rm (Some r) (Some (Num n)) answer
          = ([DisplayWarning (''Invalid step index. Please use a number between 1 and '' @
                              show_nat (length (steps r)))], None)"
    if "steps r \<noteq> []" "n \<noteq> 0" "n < 1 \<or> int (length (steps r)) < n"
    using that by (auto simp: explicit_flow)
  have empty: "steps r = [] \<longrightarrow>
        remove_step_handler rm (Some r) arg answer
          = ([DisplayWarning ''This recipe has no steps to remove''], None)"
    by (simp add: remove_step_handler_def)
  from model unchanged numbers integers empty show ?thesis by blast
qed

theorem remove_step_index_rejected_witness:
  "removeStep tea 2 = (tea, Some IndexError) \<and> removeStep tea (- 1) = (tea, Some IndexError)
   \<and> snd (removeStep tea 1) \<noteq> Some IndexError
   \<and> remove_step_handler removeStep_num (Some tea) (Some (Frac 35 1)) (Num 0)
       = ([DisplayWarning ''Invalid step index. Please use a number between 1 and 2''], None)
   \<and> remove_step_handler removeStep_num (Some tea) (Some (Frac 5 1)) (Num 0)
       = ([DisplayWarning ''Invalid step index. Please use a number between 1 and 2''], None)
   \<and> remove_step_handler removeStep_num (Some tea) (Some (Num 3)) (Num 0)
       = ([DisplayWarning ''Invalid step index. Please use a number between 1 and 2''], None)
   \<and> remove_step_handler removeStep_num (Some tea) (Some (Num (- 1))) (Num 0)
       = ([DisplayWarning ''Invalid step index. Please use a number between 1 and 2''], None)
   \<and> remove_step_handler removeStep_num (Some stew) (Some (Num 1)) (Num 0)
       = ([DisplayWarning ''This recipe has no steps to remove''], None)"
  using remove_step_index_rejected [where r = tea and i = 2 and x = "Frac 35 1" and n = 3
      and rm = removeStep_num and answer = "Num 0"]
    remove_step_index_rejected [where r = tea and i = "- 1" and x = "Frac 5 1" and n = "- 1"
      and rm = removeStep_num and answer = "Num 0"]
    remove_step_index_rejected [where r = tea and i = 1]
    remove_step_index_rejected [where r = stew and arg = "Some (Num 1)"
      and rm = removeStep_num and answer = "Num 0"]
  by (simp add: tea_def stew_def show_nat.simps digit_def)

text \<open>
  The claim C2 as first stated does not hold, on four inputs. With \<^verbatim>\<open>stepIndex\<close> 0, and
  likewise with a \<^verbatim>\<open>stepIndex\<close> that is not numeric, on a recipe of two steps the
  handler lists the steps, prompts, and removes the step the user then picks. With
  \<^verbatim>\<open>stepIndex\<close> 2.5 on the same recipe the range test passes (1.5 is neither below 0
  nor at least 2), \<^verbatim>\<open>removeStep\<close> is called with 1.5 and the recipe is handed to
  \<^verbatim>\<open>updateExistingRecipe\<close>. On a recipe without steps the index 5 gets the no-steps
  warning, not the invalid-index one.
\<close>

theorem remove_step_index_counterexample:
  "remove_step_handler removeStep_num (Some tea) (Some (Num 0)) (Num 0)
     = ([ConsoleLog Cyan ''Current steps:'', ConsoleLog Plain ''1. Boil water'',
         ConsoleLog Plain ''2. Steep'', PromptForStepIndex 1,
         UpdateExistingRecipe (tea\<lparr>steps := [''Steep'']\<rparr>)
           (''Removed step 1 from '' @ dquote @ ''Tea'' @ dquote)], None)
   \<and> remove_step_handler removeStep_num (Some tea) (Some NaN) (Num 0)
     = ([ConsoleLog Cyan ''Current steps:'', ConsoleLog Plain ''1. Boil water'',
         ConsoleLog Plain ''2. Steep'', PromptForStepIndex 1,
         UpdateExistingRecipe (tea\<lparr>steps := [''Steep'']\<rparr>)
           (''Removed step 1 from '' @ dquote @ ''Tea'' @ dquote)], None)
   \<and> remove_step_handler removeStep_num (Some tea) (Some (Frac 25 1)) (Num 0)
     = ([UpdateExistingRecipe (tea\<lparr>steps := [''Boil water'']\<rparr>)
           (''Removed step 2.5 from '' @ dquote @ ''Tea'' @ dquote)], None)
   \<and> remove_step_handler removeStep_num (Some stew) (Some (Num 5)) (Num 0)
     = ([DisplayWarning ''This recipe has no steps to remove''], None)"
  by (simp add: tea_def stew_def remove_step_handler_def remove_and_update_def removeStep_def
      step_lines_def show_int_def show_frac_def show_nat.simps digit_def enumerate_eq_zip
      upt_rec Let_def)

section \<open>The delete command\<close>

text \<open>
  Claim C8. For every \<^verbatim>\<open>delete\<close> invocation, the handler calls \<^verbatim>\<open>deleteRecipe\<close> only
  when the confirmation was affirmative, and only after the confirmation prompt. On an
  existing recipe, a declined confirmation gives the prompt followed by the message
  "Delete cancelled" and leaves the stored collection as it was; an affirmative one
  gives the prompt followed by the one call of \<^verbatim>\<open>deleteRecipe\<close>.
\<close>

theorem delete_needs_confirmation:
  "(\<forall>k < length (fst (delete_handler ro argId confirmed)).
      is_store_call (fst (delete_handler ro argId confirmed) ! k) \<longrightarrow>
        confirmed \<and> (\<exists>j < k. is_prompt (fst (delete_handler ro argId confirmed) ! j)))
   \<and> delete_handler (Some r) argId False
       = ([PromptForConfirmation
             (''Are you sure you want to delete '' @ dquote @ name r @ dquote @ ''?''),
           DisplayInfo ''Delete cancelled''], None)
   \<and> run_actions (fst (delete_handler (Some r) argId False)) s = s
   \<and> delete_handler (Some r) argId True
       = ([PromptForConfirmation
             (''Are you sure you want to delete '' @ dquote @ name r @ dquote @ ''?''),
           DeleteRecipe argId (name r)], None)"
  by (cases ro; cases confirmed)
     (auto simp: delete_handler_def run_actions_def nth_Cons' less_Suc_eq)

theorem delete_needs_confirmation_witness:
  "length (fst (delete_handler (Some tea) (Num 1) True)) = 2
   \<and> is_store_call (fst (delete_handler (Some tea) (Num 1) True) ! 1)
   \<and> is_prompt (fst (delete_handler (Some tea) (Num 1) True) ! 0)
   \<and> fst (delete_handler (Some tea) (Num 1) False) ! 1 = DisplayInfo ''Delete cancelled''
   \<and> run_actions (fst (delete_handler (Some tea) (Num 1) False)) [tea, stew] = [tea, stew]
   \<and> run_actions (fst (delete_handler (Some tea) (Num 1) True)) [tea, stew] = [stew]"
  using delete_needs_confirmation [of "Some tea" "Num 1" True tea "[tea, stew]"]
  by (simp add: delete_handler_def run_actions_def delete_def tea_def stew_def)

section \<open>The reset-data command\<close>

text \<open>
  Claim C7. The handler of \<^verbatim>\<open>reset-data\<close> never ends with an uncaught error. When the
  user declines, \<^verbatim>\<open>execSync\<close> is not called, "Reset cancelled" is the last message and
  the data stay as they were. When the user confirms, \<^verbatim>\<open>execSync\<close> is called exactly
  once; if the external procedure succeeds, success is reported after it and the data
  are what the procedure delivered; if it fails, the failure is caught and reported as
  the error message "Failed to reset data: ..." and the data stay as they were.
\<close>

theorem reset_data_guarded:
  "snd (fst (reset_data_command reset confirmed s)) = None
   \<and> (\<not> confirmed \<longrightarrow>
        filter is_exec (fst (fst (reset_data_command reset confirmed s))) = []
        \<and> last (fst (fst (reset_data_command reset confirmed s))) = DisplayInfo ''Reset cancelled''
        \<and> snd (reset_data_command reset confirmed s) = s)
   \<and> (confirmed \<longrightarrow>
        length (filter is_exec (fst (fst (reset_data_command reset confirmed s)))) = 1
        \<and> (\<forall>s'. reset s = Inr s' \<longrightarrow>
              fst (fst (reset_data_command reset confirmed s))
                = [PromptForConfirmation
                     ''Are you sure you want to reset all recipe data to defaults? This cannot be undone.'',
                   ExecSync ''npm run reset-data'',
                   DisplaySuccess ''Recipe data has been reset to defaults'']
              \<and> snd (reset_data_command reset confirmed s) = s')
        \<and> (\<forall>msg. reset s = Inl msg \<longrightarrow>
              fst (fst (reset_data_command reset confirmed s))
                = [PromptForConfirmation
                     ''Are you sure you want to reset all recipe data to defaults? This cannot be undone.'',
                   ExecSync ''npm run reset-data'',
                   DisplayError (''Failed to reset data: '' @ msg)]
              \<and> snd (reset_data_command reset confirmed s) = s))"
  by (cases confirmed; cases "reset s")
     (simp_all add: reset_data_command_def reset_data_handler_def exec_thrown_def)

theorem reset_data_guarded_witness:
  "reset_data_command (\<lambda>s. Inl ''exit 1'') True [tea]
     = (([PromptForConfirmation
            ''Are you sure you want to reset all recipe data to defaults? This cannot be undone.'',
          ExecSync ''npm run reset-data'',
          DisplayError ''Failed to reset data: exit 1''], None), [tea])
   \<and> snd (reset_data_command (\<lambda>s. Inr [stew]) True [tea]) = [stew]
   \<and> snd (reset_data_command (\<lambda>s. Inr [stew]) False [tea]) = [tea]"
  using reset_data_guarded [of "\<lambda>s. Inl ''exit 1''" True "[tea]"]
    reset_data_guarded [of "\<lambda>s. Inr [stew]" True "[tea]"]
    reset_data_guarded [of "\<lambda>s. Inr [stew]" False "[tea]"]
  by (simp add: reset_data_command_def reset_data_handler_def exec_thrown_def)

section \<open>Lookup of an id that is not stored\<close>

lemma lookup_handler_absent: "lookup_handler cmd argId None = ([], None)"
  by (cases cmd)
     (simp_all add: view_handler_def format_handler_def add_ingredient_handler_def
        add_step_handler_def remove_step_handler_def delete_handler_def)

text \<open>
  Claim C5. For each of the commands \<^verbatim>\<open>view\<close>, \<^verbatim>\<open>format\<close>, \<^verbatim>\<open>add-ingredient\<close>,
  \<^verbatim>\<open>add-step\<close>, \<^verbatim>\<open>remove-step\<close> and \<^verbatim>\<open>delete\<close>: if no recipe with the id is
  stored, the lookup yields an absent recipe and no error, the condition is reported
  as a warning, and the handler returns at once. The whole command consists of that
  warning: it has no prompt and no Store call, and the stored collection stays as it
  was.
\<close>

theorem lookup_not_found:
  "getById s i = None \<Longrightarrow>
     getRecipeById notFound s (Num i) = ([DisplayWarning (notFound (Num i))], None)
     \<and> lookup_handler cmd (Num i) None = ([], None)
     \<and> run_lookup_command notFound cmd (Num i) s = ([DisplayWarning (notFound (Num i))], None)
     \<and> (\<forall>a \<in> set (fst (run_lookup_command notFound cmd (Num i) s)).
           \<not> is_prompt a \<and> \<not> is_store_call a)
     \<and> run_actions (fst (run_lookup_command notFound cmd (Num i) s)) s = s"
  by (simp add: run_lookup_command_def lookup_handler_absent run_actions_def)

theorem lookup_not_found_witness:
  "getById [tea, stew] 7 = None
   \<and> run_lookup_command (\<lambda>n. ''Recipe not found'') (Delete True) (Num 7) [tea, stew]
       = ([DisplayWarning ''Recipe not found''], None)
   \<and> run_lookup_command (\<lambda>n. ''Recipe not found'') (AddStep ''Stir'') (Num 7) [tea, stew]
       = ([DisplayWarning ''Recipe not found''], None)"
  using lookup_not_found [of "[tea, stew]" 7 "\<lambda>n. ''Recipe not found''" "Delete True"]
    lookup_not_found [of "[tea, stew]" 7 "\<lambda>n. ''Recipe not found''" "AddStep ''Stir''"]
  by (simp add: getById_def tea_def stew_def)

section \<open>Errors raised by the Model\<close>

text \<open>
  No handler has a \<^verbatim>\<open>catch\<close> around its call of the Model: whatever functions stand
  for \<^verbatim>\<open>createRecipe\<close>, \<^verbatim>\<open>addIngredient\<close>, \<^verbatim>\<open>addStep\<close> and \<^verbatim>\<open>removeStep\<close>, an error
  that one of them raises leaves the continuation of the prompt, after the prompt and
  before any message or Store wrapper call.
\<close>

lemma handlers_do_not_catch:
  "(createRecipe' (info_name info) (info_cookingTime info) (info_servings info) = Inl e \<longrightarrow>
      create_handler createRecipe' info = ([PromptForRecipeInfo], Some e))
   \<and> (snd (addIngredient' r (ingredient_name ii) (ingredient_amount ii) (ingredient_unit ii))
         = Some e \<longrightarrow>
      add_ingredient_handler addIngredient' (Some r) ii = ([PromptForIngredient], Some e))
   \<and> (snd (addStep' r instruction) = Some e \<longrightarrow>
      add_step_handler addStep' (Some r) instruction = ([PromptForStep], Some e))
   \<and> (steps r \<noteq> [] \<and> snd (removeStep' r answer) = Some e \<longrightarrow>
      remove_step_handler removeStep' (Some r) None answer
        = (ConsoleLog Cyan ''Current steps:'' # step_lines (steps r) @
           [PromptForStepIndex (int (length (steps r)) - 1)], Some e))"
proof -
  have "steps r \<noteq> [] \<and> snd (removeStep' r answer) = Some e \<longrightarrow>
      remove_step_handler removeStep' (Some r) None answer
        = (ConsoleLog Cyan ''Current steps:'' # step_lines (steps r) @
           [PromptForStepIndex (int (length (steps r)) - 1)], Some e)"
    by (auto simp: prompt_flow remove_and_update_def split: prod.splits option.splits)
  moreover have "createRecipe' (info_name info) (info_cookingTime info) (info_servings info)
      = Inl e \<longrightarrow> create_handler createRecipe' info = ([PromptForRecipeInfo], Some e)"
    by (simp add: create_handler_def)
  moreover have "snd (addIngredient' r (ingredient_name ii) (ingredient_amount ii)
      (ingredient_unit ii)) = Some e \<longrightarrow>
      add_ingredient_handler addIngredient' (Some r) ii = ([PromptForIngredient], Some e)"
    by (auto simp: add_ingredient_handler_def split: prod.splits option.splits)
  moreover have "snd (addStep' r instruction) = Some e \<longrightarrow>
      add_step_handler addStep' (Some r) instruction = ([PromptForStep], Some e)"
    by (auto simp: add_step_handler_def split: prod.splits option.splits)
  ultimately show ?thesis by blast
qed

text \<open>
  With the Model of the specification, the \<^verbatim>\<open>remove-step\<close> handler meets no
  \<^verbatim>\<open>IndexError\<close>: a truthy \<^verbatim>\<open>stepIndex\<close> argument passes the handler's own range test
  before \<^verbatim>\<open>removeStep\<close> is called, and the prompt is given the largest index,
  \<^verbatim>\<open>recipe.steps.length - 1\<close>, so that an index picked there is in range.
\<close>

lemma frac_part_bounds:
  "0 \<le> (m::int) \<Longrightarrow> m < n * 10 ^ k \<Longrightarrow> 0 \<le> m div 10 ^ k \<and> m div 10 ^ k < n"
proof
  assume m: "0 \<le> m" and lt: "m < n * 10 ^ k"
  have b: "(0::int) < 10 ^ k" by simp
  show "0 \<le> m div 10 ^ k" using m b by (simp add: pos_imp_zdiv_nonneg_iff)
  have "m div 10 ^ k * 10 ^ k \<le> m"
    using div_mult_mod_eq [of m "10 ^ k"] pos_mod_sign [OF b, of m] by linarith
  with lt have "m div 10 ^ k * 10 ^ k < n * 10 ^ k" by linarith
  with b show "m div 10 ^ k < n" by (simp add: mult_less_cancel_right)
qed

lemma removeStep_num_in_range:
  "\<not> less_int y 0 \<Longrightarrow> \<not> ge_int y (int (length (steps r))) \<Longrightarrow> y \<noteq> NaN \<Longrightarrow>
     snd (removeStep_num r y) = None"
proof (cases y)
  case (Num i)
  assume "\<not> less_int y 0" "\<not> ge_int y (int (length (steps r)))"
  with Num show ?thesis by (simp add: removeStep_def)
next
  case (Frac m k)
  assume "\<not> less_int y 0" "\<not> ge_int y (int (length (steps r)))"
  with Frac have "0 \<le> m" "m < int (length (steps r)) * 10 ^ k" by simp_all
  then have "0 \<le> m div 10 ^ k \<and> m div 10 ^ k < int (length (steps r))"
    by (rule frac_part_bounds)
  with Frac show ?thesis by (simp add: removeStep_def)
next
  case NaN
  assume "y \<noteq> NaN"
  with NaN show ?thesis by simp
qed

lemma add_int_not_NaN: "truthy (Some x) \<Longrightarrow> add_int x d \<noteq> NaN"
  by (cases x) simp_all

lemma remove_and_update_ok:
  "snd (removeStep_num q y) = None \<Longrightarrow> snd (remove_and_update removeStep_num q y) = None"
  by (cases "removeStep_num q y") (simp add: remove_and_update_def)

lemma explicit_index_meets_no_error:
  assumes t: "truthy (Some x)"
  shows "snd (remove_step_handler removeStep_num ro (Some x) answer) = None"
proof (cases ro)
  case None
  then show ?thesis by (simp add: remove_step_handler_def)
next
  case (Some q)
  show ?thesis
  proof (cases "steps q = []")
    case True
    with Some show ?thesis by (simp add: remove_step_handler_def)
  next
    case False
    show ?thesis
    proof (cases "less_int x 1 \<or> ge_int x (int (length (steps q)) + 1)")
      case True
      with False t Some show ?thesis by (simp add: explicit_flow)
    next
      case inside: False
      then have "\<not> less_int (add_int x (- 1)) 0"
        "\<not> ge_int (add_int x (- 1)) (int (length (steps q)))"
        by (simp_all add: less_int_sub_one ge_int_sub_one)
      then have "snd (removeStep_num q (add_int x (- 1))) = None"
        using add_int_not_NaN [OF t] by (rule removeStep_num_in_range)
      with False t inside Some show ?thesis
        by (simp add: explicit_flow remove_and_update_ok)
    qed
  qed
qed

lemma picked_index_meets_no_error:
  assumes a: "0 \<le> a" "a < int (length (steps r))"
  shows "snd (remove_step_handler removeStep_num (Some r) arg (Num a)) = None"
proof (cases "zero_based arg")
  case None
  from a have "steps r \<noteq> []" by auto
  moreover from a have "snd (removeStep_num r (Num a)) = None"
    by (simp add: removeStep_def)
  ultimately show ?thesis using None by (simp add: prompt_flow remove_and_update_ok)
next
  case (Some y)
  then obtain x where "arg = Some x" "truthy (Some x)"
    by (cases arg) (auto split: if_splits)
  then show ?thesis by (simp add: explicit_index_meets_no_error)
qed

end
